theory Spec2Isabelle
  imports Complex_Main "HOL-Library.AList"
begin

section \<open>Python values used by the handler\<close>

text \<open>
  The service is one FastAPI handler, \<^verbatim>\<open>predict_job_satisfaction\<close> in \<^verbatim>\<open>main.py\<close>.
  Its parameters are typed \<^verbatim>\<open>str\<close>, \<^verbatim>\<open>int\<close> and \<^verbatim>\<open>float\<close>. A Python \<^verbatim>\<open>str\<close> is
  represented by its UTF-8 bytes, an \<^verbatim>\<open>int\<close> by an unbounded integer, and a
  \<^verbatim>\<open>float\<close> by a rational or one of the three special values. The handler applies
  only the comparison with zero and the test for NaN to the floats of a request.
\<close>

datatype pyfloat = Finite rat | PosInf | NegInf | NaN

fun float_lt :: "pyfloat \<Rightarrow> pyfloat \<Rightarrow> bool" where
  "float_lt (Finite a) (Finite b) = (a < b)"
| "float_lt (Finite a) PosInf = True"
| "float_lt NegInf (Finite b) = True"
| "float_lt NegInf PosInf = True"
| "float_lt _ _ = False"

fun float_le :: "pyfloat \<Rightarrow> pyfloat \<Rightarrow> bool" where
  "float_le (Finite a) (Finite b) = (a \<le> b)"
| "float_le (Finite a) PosInf = True"
| "float_le NegInf (Finite b) = True"
| "float_le NegInf PosInf = True"
| "float_le NegInf NegInf = True"
| "float_le PosInf PosInf = True"
| "float_le _ _ = False"

text \<open>\<^verbatim>\<open>str(i)\<close> for an integer: its decimal digits, with a minus sign when negative.\<close>

function str_nat :: "nat \<Rightarrow> string" where
  "str_nat n =
     (if n < 10 then [char_of (48 + n)]
      else str_nat (n div 10) @ [char_of (48 + n mod 10)])"
  by pat_completeness auto
termination
  by (relation "measure (\<lambda>n. n)") auto

definition str_int :: "int \<Rightarrow> string" where
  "str_int i = (if i < 0 then CHR ''-'' # str_nat (nat (- i)) else str_nat (nat i))"

text \<open>
  The double nearest to a rational, ties going to the even significand: a significand of 53
  bits, the least exponent \<open>-1074\<close> of the subnormal range, and infinity for a magnitude
  that rounds to \<open>2 ^ 1024\<close> or more.
\<close>

function bit_length :: "int \<Rightarrow> nat" where
  "bit_length i = (if i \<le> 0 then 0 else Suc (bit_length (i div 2)))"
  by pat_completeness auto
termination
  by (relation "measure nat") auto

definition pow2 :: "int \<Rightarrow> rat" where
  "pow2 e = (if 0 \<le> e then 2 ^ nat e else 1 / 2 ^ nat (- e))"

definition round_half_even :: "rat \<Rightarrow> int" where
  "round_half_even q =
     (let f = \<lfloor>q\<rfloor>; d = q - of_int f
      in if d < 1 / 2 then f
         else if 1 / 2 < d then f + 1
         else if even f then f else f + 1)"

definition double_exponent :: "rat \<Rightarrow> int" where
  "double_exponent q =
     (case quotient_of q of
        (a, b) \<Rightarrow>
          let e0 = int (bit_length a) - int (bit_length b) - 53;
              e = (if q / pow2 e0 < 2 ^ 53 then e0 else e0 + 1)
          in max e (- 1074))"

definition round_double :: "rat \<Rightarrow> pyfloat" where
  "round_double q =
     (if q = 0 then Finite 0
      else
        let a = \<bar>q\<bar>;
            e = double_exponent a;
            v = of_int (round_half_even (a / pow2 e)) * pow2 e
        in if 2 ^ 1024 \<le> v then (if q < 0 then NegInf else PosInf)
           else Finite (if q < 0 then - v else v))"

text \<open>Python's \<^verbatim>\<open>s.startswith(f)\<close> and \<^verbatim>\<open>f in s\<close> on strings.\<close>

fun starts_with :: "string \<Rightarrow> string \<Rightarrow> bool" where
  "starts_with s [] = True"
| "starts_with [] (c # cs) = False"
| "starts_with (x # xs) (c # cs) = (x = c \<and> starts_with xs cs)"

fun contains :: "string \<Rightarrow> string \<Rightarrow> bool" where
  "contains [] f = (f = [])"
| "contains (x # xs) f = (starts_with (x # xs) f \<or> contains xs f)"

section \<open>The one-row data frame\<close>

text \<open>
  \<^verbatim>\<open>pd.DataFrame({'Gender': [Gender], ...})\<close> has one row. It is represented by the list
  of its columns in order, each column name paired with the value of its single cell.
  \<open>CStrOfFloat f\<close> stands for the text \<^verbatim>\<open>str(f)\<close> of a float, which is not expanded
  into characters; the handler never produces it, since every column it converts to text
  holds a \<^verbatim>\<open>str\<close> or an \<^verbatim>\<open>int\<close>.
\<close>

datatype cell = CStr string | CInt int | CFloat pyfloat | CStrOfFloat pyfloat

type_synonym DataFrame = "(string \<times> cell) list"

subsection \<open>\<^verbatim>\<open>pd.to_numeric(column, errors='coerce')\<close>\<close>

text \<open>
  An integer that fits a signed or unsigned 64-bit column stays an integer. A larger one
  makes the column of the frame an object column, which the coercion turns into a column
  of doubles: the integer is rounded to the nearest double.
\<close>

definition int_to_numeric :: "int \<Rightarrow> cell" where
  "int_to_numeric i =
     (if - (2 ^ 63) \<le> i \<and> i < 2 ^ 64 then CInt i else CFloat (round_double (of_int i)))"

text \<open>
  A \<^verbatim>\<open>str\<close> cell is read as a number when it is, ignoring case, a name of infinity with
  an optional sign, or when, after stripping white space, it is a signed decimal literal
  (digits, optional fraction, optional exponent). A literal of digits alone is read as an
  integer, any other literal as the nearest double. Any other text is a coercion failure,
  which \<^verbatim>\<open>errors='coerce'\<close> turns into NaN.
\<close>

definition is_digit :: "char \<Rightarrow> bool" where
  "is_digit c = (c \<in> set ''0123456789'')"

definition digit_value :: "char \<Rightarrow> nat" where
  "digit_value c = of_char c - 48"

definition decimal_value :: "string \<Rightarrow> int" where
  "decimal_value ds = foldl (\<lambda>n c. 10 * n + int (digit_value c)) 0 ds"

definition digits :: "string \<Rightarrow> bool" where
  "digits ds = (ds \<noteq> [] \<and> list_all is_digit ds)"

definition is_space :: "char \<Rightarrow> bool" where
  "is_space c = (c \<in> set [CHR '' '', CHR 0x09, CHR 0x0A, CHR 0x0B, CHR 0x0C, CHR 0x0D])"

definition strip :: "string \<Rightarrow> string" where
  "strip s = rev (dropWhile is_space (rev (dropWhile is_space s)))"

definition lower :: "char \<Rightarrow> char" where
  "lower c = (if c \<in> set ''ABCDEFGHIJKLMNOPQRSTUVWXYZ'' then char_of (of_char c + (32::nat)) else c)"

fun split_sign :: "string \<Rightarrow> bool \<times> string" where
  "split_sign [] = (False, [])"
| "split_sign (c # cs) =
     (if c = CHR ''-'' then (True, cs)
      else if c = CHR ''+'' then (False, cs)
      else (False, c # cs))"

definition scale10 :: "rat \<Rightarrow> bool \<Rightarrow> nat \<Rightarrow> rat" where
  "scale10 q neg e = (if neg then q / 10 ^ e else q * 10 ^ e)"

definition parse_decimal :: "string \<Rightarrow> rat option" where
  "parse_decimal u =
     (let m = takeWhile (\<lambda>c. c \<notin> set ''eE'') u;
          x = dropWhile (\<lambda>c. c \<notin> set ''eE'') u;
          ip = takeWhile (\<lambda>c. c \<noteq> CHR ''.'') m;
          fp = drop 1 (dropWhile (\<lambda>c. c \<noteq> CHR ''.'') m);
          q = of_int (decimal_value ip) + of_int (decimal_value fp) / 10 ^ length fp
      in if list_all is_digit ip \<and> list_all is_digit fp \<and> (ip \<noteq> [] \<or> fp \<noteq> [])
         then (case x of
                 [] \<Rightarrow> Some q
               | _ # ex \<Rightarrow>
                   (case split_sign ex of
                      (eneg, ed) \<Rightarrow>
                        if digits ed then Some (scale10 q eneg (nat (decimal_value ed)))
                        else None))
         else None)"

definition parse_literal :: "string \<Rightarrow> cell option" where
  "parse_literal s =
     (case split_sign (strip s) of
        (neg, u) \<Rightarrow>
          if digits u
          then Some (int_to_numeric (if neg then - decimal_value u else decimal_value u))
          else map_option (\<lambda>q. CFloat (round_double (if neg then - q else q)))
                 (parse_decimal u))"

definition parse_numeric :: "string \<Rightarrow> cell option" where
  "parse_numeric s =
     (case split_sign (map lower s) of
        (neg, u) \<Rightarrow>
          if u \<in> {''inf'', ''infinity''}
          then Some (CFloat (if neg then NegInf else PosInf))
          else parse_literal s)"

fun to_numeric :: "cell \<Rightarrow> cell" where
  "to_numeric (CInt i) = int_to_numeric i"
| "to_numeric (CFloat f) = CFloat f"
| "to_numeric (CStrOfFloat f) = CFloat f"
| "to_numeric (CStr s) = (case parse_numeric s of Some c \<Rightarrow> c | None \<Rightarrow> CFloat NaN)"

subsection \<open>\<^verbatim>\<open>isnull\<close>, \<^verbatim>\<open>fillna(0)\<close> and \<^verbatim>\<open>astype(str)\<close>\<close>

fun isnull :: "cell \<Rightarrow> bool" where
  "isnull (CFloat NaN) = True"
| "isnull _ = False"

definition fillna :: "pyfloat \<Rightarrow> cell \<Rightarrow> cell" where
  "fillna z c = (if isnull c then CFloat z else c)"

fun astype_str :: "cell \<Rightarrow> cell" where
  "astype_str (CStr s) = CStr s"
| "astype_str (CInt i) = CStr (str_int i)"
| "astype_str (CFloat f) = CStrOfFloat f"
| "astype_str (CStrOfFloat f) = CStrOfFloat f"

section \<open>Exceptions\<close>

datatype http_exception = HTTPException (status_code: nat) (detail: string)

datatype py_exception = HTTPExc http_exception | KeyError string | IndexError

text \<open>
  \<^verbatim>\<open>input_data[col] = f(input_data[col])\<close>: reading a column that the frame does not have
  raises \<^verbatim>\<open>KeyError\<close>; assigning to an existing column keeps its position.
\<close>

definition column_apply :: "(cell \<Rightarrow> cell) \<Rightarrow> string \<Rightarrow> DataFrame \<Rightarrow> py_exception + DataFrame" where
  "column_apply f col df =
     (case map_of df col of
        None \<Rightarrow> Inl (KeyError col)
      | Some v \<Rightarrow> Inr (AList.update col (f v) df))"

text \<open>\<^verbatim>\<open>for col in cols: input_data[col] = f(input_data[col])\<close>\<close>

fun for_columns :: "(cell \<Rightarrow> cell) \<Rightarrow> string list \<Rightarrow> DataFrame \<Rightarrow> py_exception + DataFrame" where
  "for_columns f [] df = Inr df"
| "for_columns f (col # cols) df =
     (case column_apply f col df of
        Inl e \<Rightarrow> Inl e
      | Inr df' \<Rightarrow> for_columns f cols df')"

section \<open>The request\<close>

record request =
  Gender :: string
  MaritalStatus :: string
  Dept :: string
  EmpType :: string
  CommuteMode :: string
  EduLevel :: string
  JobLevel :: string
  Stress :: int
  WorkEnv :: int
  Age :: int
  TeamSize :: int
  haveOT :: string
  Workload :: int
  TrainingHoursPerYear :: pyfloat
  WLB :: int
  SleepHours :: pyfloat
  Experience :: int
  NumReports :: int
  CommuteDistance :: int
  NumCompanies :: int
  PhysicalActivityHours :: pyfloat

section \<open>The handler \<^verbatim>\<open>predict_job_satisfaction\<close>\<close>

definition valid_job_levels :: "string set" where
  "valid_job_levels = {''Mid'', ''Intern/Fresher'', ''Junior'', ''Senior'', ''Lead''}"

text \<open>Lines 59 to 83: the checks, in order; the first that fails raises.\<close>

definition validation :: "request \<Rightarrow> http_exception option" where
  "validation r =
     (if JobLevel r \<notin> valid_job_levels then
        Some (HTTPException 400
          ''Invalid JobLevel. Must be one of: Mid, Intern/Fresher, Junior, Senior, Lead.'')
      else if \<not> (1 \<le> WorkEnv r \<and> WorkEnv r \<le> 5) then
        Some (HTTPException 400 ''WorkEnv must be an integer between 1 and 5.'')
      else if \<not> (1 \<le> Workload r \<and> Workload r \<le> 5) then
        Some (HTTPException 400 ''Workload must be an integer between 1 and 5.'')
      else if \<not> (1 \<le> WLB r \<and> WLB r \<le> 5) then
        Some (HTTPException 400 ''WLB must be an integer between 1 and 5.'')
      else if float_lt (TrainingHoursPerYear r) (Finite 0) then
        Some (HTTPException 400 ''TrainingHoursPerYear must be a non-negative number.'')
      else if float_lt (SleepHours r) (Finite 0) then
        Some (HTTPException 400 ''SleepHours must be a non-negative number.'')
      else if float_lt (PhysicalActivityHours r) (Finite 0) then
        Some (HTTPException 400 ''PhysicalActivityHours must be a non-negative number.'')
      else None)"

text \<open>Lines 86 to 108.\<close>

definition input_data :: "request \<Rightarrow> DataFrame" where
  "input_data r =
     [(''Gender'', CStr (Gender r)),
      (''MaritalStatus'', CStr (MaritalStatus r)),
      (''Dept'', CStr (Dept r)),
      (''EmpType'', CStr (EmpType r)),
      (''CommuteMode'', CStr (CommuteMode r)),
      (''EduLevel'', CStr (EduLevel r)),
      (''JobLevel'', CStr (JobLevel r)),
      (''Stress'', CInt (Stress r)),
      (''WorkEnv'', CInt (WorkEnv r)),
      (''Age'', CInt (Age r)),
      (''TeamSize'', CInt (TeamSize r)),
      (''haveOT'', CStr (haveOT r)),
      (''Workload'', CInt (Workload r)),
      (''TrainingHoursPerYear'', CFloat (TrainingHoursPerYear r)),
      (''WLB'', CInt (WLB r)),
      (''SleepHours'', CFloat (SleepHours r)),
      (''Experience'', CInt (Experience r)),
      (''NumReports'', CInt (NumReports r)),
      (''CommuteDistance'', CInt (CommuteDistance r)),
      (''NumCompanies'', CInt (NumCompanies r)),
      (''PhysicalActivityHours'', CFloat (PhysicalActivityHours r))]"

definition numeric_columns :: "string list" where
  "numeric_columns =
     [''JobLevel'', ''Age'', ''TeamSize'', ''TrainingHoursPerYear'', ''SleepHours'',
      ''Experience'', ''NumReports'', ''CommuteDistance'', ''NumCompanies'',
      ''PhysicalActivityHours'']"

definition categorical_columns :: "string list" where
  "categorical_columns =
     [''Gender'', ''MaritalStatus'', ''Dept'', ''EmpType'', ''CommuteMode'', ''EduLevel'',
      ''WorkEnv'', ''haveOT'', ''WLB'']"

text \<open>Lines 124 to 126: \<^verbatim>\<open>if input_data.isnull().values.any(): input_data = input_data.fillna(0)\<close>\<close>

definition fill_nulls :: "DataFrame \<Rightarrow> DataFrame" where
  "fill_nulls df =
     (if list_ex (\<lambda>kv. isnull (snd kv)) df
      then map (\<lambda>kv. (fst kv, fillna (Finite 0) (snd kv))) df
      else df)"

text \<open>Lines 113 to 132: the record handed to the preprocessor.\<close>

definition normalize :: "request \<Rightarrow> py_exception + DataFrame" where
  "normalize r =
     (case for_columns to_numeric numeric_columns (input_data r) of
        Inl e \<Rightarrow> Inl e
      | Inr df \<Rightarrow> for_columns astype_str categorical_columns (fill_nulls df))"

text \<open>
  The three details of the status 500 responses (lines 142, 152 and 159) are Thai text;
  they are given by their UTF-8 bytes.
\<close>

definition detail_transform :: string where
  "detail_transform =
     [CHR 0xE0, CHR 0xB8, CHR 0x82, CHR 0xE0, CHR 0xB9, CHR 0x89, CHR 0xE0, CHR 0xB8, CHR 0xAD,
      CHR 0xE0, CHR 0xB8, CHR 0x9C, CHR 0xE0, CHR 0xB8, CHR 0xB4, CHR 0xE0, CHR 0xB8, CHR 0x94,
      CHR 0xE0, CHR 0xB8, CHR 0x9E, CHR 0xE0, CHR 0xB8, CHR 0xA5, CHR 0xE0, CHR 0xB8, CHR 0xB2,
      CHR 0xE0, CHR 0xB8, CHR 0x94, CHR 0xE0, CHR 0xB9, CHR 0x83, CHR 0xE0, CHR 0xB8, CHR 0x99,
      CHR 0xE0, CHR 0xB8, CHR 0x81, CHR 0xE0, CHR 0xB8, CHR 0xB2, CHR 0xE0, CHR 0xB8, CHR 0xA3,
      CHR 0xE0, CHR 0xB9, CHR 0x81, CHR 0xE0, CHR 0xB8, CHR 0x9B, CHR 0xE0, CHR 0xB8, CHR 0xA5,
      CHR 0xE0, CHR 0xB8, CHR 0x87, CHR 0xE0, CHR 0xB8, CHR 0x82, CHR 0xE0, CHR 0xB9, CHR 0x89,
      CHR 0xE0, CHR 0xB8, CHR 0xAD, CHR 0xE0, CHR 0xB8, CHR 0xA1, CHR 0xE0, CHR 0xB8, CHR 0xB9,
      CHR 0xE0, CHR 0xB8, CHR 0xA5]"

definition detail_predict :: string where
  "detail_predict =
     [CHR 0xE0, CHR 0xB8, CHR 0x82, CHR 0xE0, CHR 0xB9, CHR 0x89, CHR 0xE0, CHR 0xB8, CHR 0xAD,
      CHR 0xE0, CHR 0xB8, CHR 0x9C, CHR 0xE0, CHR 0xB8, CHR 0xB4, CHR 0xE0, CHR 0xB8, CHR 0x94,
      CHR 0xE0, CHR 0xB8, CHR 0x9E, CHR 0xE0, CHR 0xB8, CHR 0xA5, CHR 0xE0, CHR 0xB8, CHR 0xB2,
      CHR 0xE0, CHR 0xB8, CHR 0x94, CHR 0xE0, CHR 0xB9, CHR 0x83, CHR 0xE0, CHR 0xB8, CHR 0x99,
      CHR 0xE0, CHR 0xB8, CHR 0x81, CHR 0xE0, CHR 0xB8, CHR 0xB2, CHR 0xE0, CHR 0xB8, CHR 0xA3,
      CHR 0xE0, CHR 0xB8, CHR 0x97, CHR 0xE0, CHR 0xB8, CHR 0xB3, CHR 0xE0, CHR 0xB8, CHR 0x99,
      CHR 0xE0, CHR 0xB8, CHR 0xB2, CHR 0xE0, CHR 0xB8, CHR 0xA2]"

definition detail_internal :: string where
  "detail_internal =
     [CHR 0xE0, CHR 0xB8, CHR 0x82, CHR 0xE0, CHR 0xB9, CHR 0x89, CHR 0xE0, CHR 0xB8, CHR 0xAD,
      CHR 0xE0, CHR 0xB8, CHR 0x9C, CHR 0xE0, CHR 0xB8, CHR 0xB4, CHR 0xE0, CHR 0xB8, CHR 0x94,
      CHR 0xE0, CHR 0xB8, CHR 0x9E, CHR 0xE0, CHR 0xB8, CHR 0xA5, CHR 0xE0, CHR 0xB8, CHR 0xB2,
      CHR 0xE0, CHR 0xB8, CHR 0x94, CHR 0xE0, CHR 0xB8, CHR 0xA0, CHR 0xE0, CHR 0xB8, CHR 0xB2,
      CHR 0xE0, CHR 0xB8, CHR 0xA2, CHR 0xE0, CHR 0xB9, CHR 0x83, CHR 0xE0, CHR 0xB8, CHR 0x99,
      CHR 0xE0, CHR 0xB9, CHR 0x80, CHR 0xE0, CHR 0xB8, CHR 0x8B, CHR 0xE0, CHR 0xB8, CHR 0xB4,
      CHR 0xE0, CHR 0xB8, CHR 0xA3, CHR 0xE0, CHR 0xB9, CHR 0x8C, CHR 0xE0, CHR 0xB8, CHR 0x9F,
      CHR 0xE0, CHR 0xB9, CHR 0x80, CHR 0xE0, CHR 0xB8, CHR 0xA7, CHR 0xE0, CHR 0xB8, CHR 0xAD,
      CHR 0xE0, CHR 0xB8, CHR 0xA3, CHR 0xE0, CHR 0xB9, CHR 0x8C]"

text \<open>
  The two artifacts are parameters. \<open>transform df\<close> is \<open>Inl msg\<close> when
  \<^verbatim>\<open>preprocessor.transform\<close> raises an exception with message \<open>msg\<close>, and
  \<open>predict x\<close> is \<open>Inl msg\<close> when \<^verbatim>\<open>model.predict(x).tolist()\<close> raises; otherwise it
  is the list that \<^verbatim>\<open>tolist\<close> returns. Every call
  of an artifact is recorded, with its argument, in the order in which it is made. The
  calls of \<^verbatim>\<open>logging\<close> write to the server's log only and are left out.
\<close>

datatype 'f call = Transform DataFrame | Predict 'f

type_synonym 'p body = "(string \<times> 'p) list"

text \<open>Lines 59 to 154: the body of the outer \<^verbatim>\<open>try\<close>.\<close>

definition try_body ::
  "(DataFrame \<Rightarrow> string + 'f) \<Rightarrow> ('f \<Rightarrow> string + 'p list) \<Rightarrow> request \<Rightarrow>
     'f call list \<times> (py_exception + 'p body)" where
  "try_body transform predict r =
     (case validation r of
        Some e \<Rightarrow> ([], Inl (HTTPExc e))
      | None \<Rightarrow>
          (case normalize r of
             Inl e \<Rightarrow> ([], Inl e)
           | Inr df \<Rightarrow>
               (case transform df of
                  Inl msg \<Rightarrow>
                    ([Transform df], Inl (HTTPExc (HTTPException 500 detail_transform)))
                | Inr processed_data \<Rightarrow>
                    (case predict processed_data of
                       Inl msg \<Rightarrow>
                         ([Transform df, Predict processed_data],
                          Inl (HTTPExc (HTTPException 500 detail_predict)))
                     | Inr prediction \<Rightarrow>
                         ([Transform df, Predict processed_data],
                          (case prediction of
                             [] \<Rightarrow> Inl IndexError
                           | p # _ \<Rightarrow> Inr [(''predicted_job_satisfaction'', p)]))))))"

text \<open>
  Lines 155 to 159: an \<^verbatim>\<open>HTTPException\<close> is raised again unchanged, any other
  exception becomes the internal-error response.
\<close>

definition predict_job_satisfaction ::
  "(DataFrame \<Rightarrow> string + 'f) \<Rightarrow> ('f \<Rightarrow> string + 'p list) \<Rightarrow> request \<Rightarrow>
     'f call list \<times> (http_exception + 'p body)" where
  "predict_job_satisfaction transform predict r =
     (case try_body transform predict r of
        (calls, Inr b) \<Rightarrow> (calls, Inr b)
      | (calls, Inl (HTTPExc http_exc)) \<Rightarrow> (calls, Inl http_exc)
      | (calls, Inl _) \<Rightarrow> (calls, Inl (HTTPException 500 detail_internal)))"

text \<open>
  The elements of a prediction after \<^verbatim>\<open>tolist\<close>: Python numbers and strings, or lists of
  them when the model has several outputs. The response is rendered with
  \<^verbatim>\<open>json.dumps(..., allow_nan=False)\<close>, which raises on a float that is NaN or infinite.
\<close>

datatype pyvalue = VInt int | VFloat pyfloat | VStr string | VList "pyvalue list"

fun json_ok :: "pyvalue \<Rightarrow> bool" where
  "json_ok (VInt i) = True"
| "json_ok (VFloat (Finite q)) = True"
| "json_ok (VFloat f) = False"
| "json_ok (VStr s) = True"
| "json_ok (VList vs) = list_all json_ok vs"

text \<open>
  What FastAPI sends. A raised \<^verbatim>\<open>HTTPException\<close> gives its status with the JSON body
  \<^verbatim>\<open>{"detail": ...}\<close>. A returned dictionary gives status 200 with the dictionary as the
  JSON body when it can be rendered; when the rendering raises, after the handler has
  returned, the server answers with status 500 and the plain text
  \<^verbatim>\<open>Internal Server Error\<close>. \<open>content\<close> lists the fields of the JSON body and is empty
  for the plain-text answer.
\<close>

datatype json = JString string | JValue pyvalue

record http_response =
  status :: nat
  content :: "(string \<times> json) list"

definition respond :: "http_exception + pyvalue body \<Rightarrow> http_response" where
  "respond res =
     (case res of
        Inr b \<Rightarrow>
          if list_all (\<lambda>kv. json_ok (snd kv)) b
          then \<lparr>status = 200, content = map (\<lambda>kv. (fst kv, JValue (snd kv))) b\<rparr>
          else \<lparr>status = 500, content = []\<rparr>
      | Inl (HTTPException s d) \<Rightarrow> \<lparr>status = s, content = [(''detail'', JString d)]\<rparr>)"

definition endpoint ::
  "(DataFrame \<Rightarrow> string + 'f) \<Rightarrow> ('f \<Rightarrow> string + pyvalue list) \<Rightarrow> request \<Rightarrow> http_response" where
  "endpoint transform predict r = respond (snd (predict_job_satisfaction transform predict r))"

definition artifact_calls ::
  "(DataFrame \<Rightarrow> string + 'f) \<Rightarrow> ('f \<Rightarrow> string + 'p list) \<Rightarrow> request \<Rightarrow> 'f call list" where
  "artifact_calls transform predict r = fst (predict_job_satisfaction transform predict r)"

section \<open>Start-up: loading the artifacts\<close>

text \<open>
  Lines 15 to 25. \<open>environ\<close> is the process environment and \<open>load\<close> is \<^verbatim>\<open>joblib.load\<close>
  on the file system of the host: \<open>load p\<close> is \<open>Inl msg\<close> when loading the path \<open>p\<close>
  raises. The module does not read the environment.
\<close>

definition model_path :: string where
  "model_path = ''D:/COE64-335/Final Pro/FastAPI/best_random_forest_model.pkl''"

definition preprocessor_path :: string where
  "preprocessor_path = ''D:/COE64-335/Final Pro/FastAPI/preprocessor.pkl''"

definition load_artifacts ::
  "(string \<rightharpoonup> string) \<Rightarrow> (string \<Rightarrow> string + 'a) \<Rightarrow> string list \<times> (http_exception + 'a \<times> 'a)" where
  "load_artifacts environ load =
     (case load model_path of
        Inl msg \<Rightarrow>
          ([model_path], Inl (HTTPException 500 ''Error loading model or preprocessor''))
      | Inr model \<Rightarrow>
          (case load preprocessor_path of
             Inl msg \<Rightarrow>
               ([model_path, preprocessor_path],
                Inl (HTTPException 500 ''Error loading model or preprocessor''))
           | Inr preprocessor \<Rightarrow> ([model_path, preprocessor_path], Inr (model, preprocessor))))"

section \<open>Vocabulary of the statements\<close>

text \<open>
  The constraints of the validator as the specification words them: the job level is one
  of the five names, the three ratings lie in the range 1 to 5, and the three hour counts
  are at least zero.
\<close>

definition meets_constraints :: "request \<Rightarrow> bool" where
  "meets_constraints r =
     (JobLevel r \<in> {''Mid'', ''Intern/Fresher'', ''Junior'', ''Senior'', ''Lead''} \<and>
      WorkEnv r \<in> {1..5} \<and> Workload r \<in> {1..5} \<and> WLB r \<in> {1..5} \<and>
      float_le (Finite 0) (TrainingHoursPerYear r) \<and>
      float_le (Finite 0) (SleepHours r) \<and>
      float_le (Finite 0) (PhysicalActivityHours r))"


subsection \<open>A sample request and sample artifacts\<close>

definition example_request :: request where
  "example_request =
     \<lparr>Gender = ''Male'', MaritalStatus = ''Single'', Dept = ''HR'', EmpType = ''Full-Time'',
      CommuteMode = ''Car'', EduLevel = ''Bachelor'', JobLevel = ''Senior'', Stress = 1,
      WorkEnv = 3, Age = 30, TeamSize = 10, haveOT = ''Yes'', Workload = 4,
      TrainingHoursPerYear = Finite 12, WLB = 2, SleepHours = Finite 7, Experience = 5,
      NumReports = 1, CommuteDistance = 15, NumCompanies = 3,
      PhysicalActivityHours = Finite 2\<rparr>"

definition identity_preprocessor :: "DataFrame \<Rightarrow> string + DataFrame" where
  "identity_preprocessor df = Inr df"

definition failing_preprocessor :: "string \<Rightarrow> DataFrame \<Rightarrow> string + DataFrame" where
  "failing_preprocessor msg df = Inl msg"

definition constant_model :: "'p \<Rightarrow> 'f \<Rightarrow> string + 'p list" where
  "constant_model v x = Inr [v]"

definition failing_model :: "string \<Rightarrow> 'f \<Rightarrow> string + pyvalue list" where
  "failing_model msg x = Inl msg"

definition empty_model :: "'f \<Rightarrow> string + pyvalue list" where
  "empty_model x = Inr []"


definition example_environ :: "string \<rightharpoonup> string" where
  "example_environ name = Some ''/srv/artifact.pkl''"

definition example_store :: "string \<Rightarrow> string + string" where
  "example_store path = (if path = ''/srv/artifact.pkl'' then Inr path else Inl ''No such file'')"

definition empty_store :: "string \<Rightarrow> string + string" where
  "empty_store path = Inl ''No such file''"

section \<open>Auxiliary facts\<close>

declare str_nat.simps [simp del]

declare bit_length.simps [simp del]

lemma starts_with_iff: "starts_with s f \<longleftrightarrow> (\<exists>t. s = f @ t)"
  by (induction s f rule: starts_with.induct) auto

text \<open>\<open>contains\<close> is the occurrence of a contiguous piece of text.\<close>

lemma contains_iff: "contains d f \<longleftrightarrow> (\<exists>p s. d = p @ f @ s)"
proof (induction d)
  case Nil
  then show ?case by auto
next
  case (Cons x xs)
  show ?case
  proof
    assume "contains (x # xs) f"
    then consider "starts_with (x # xs) f" | "contains xs f" by auto
    then show "\<exists>p s. x # xs = p @ f @ s"
    proof cases
      case 1
      then obtain t where "x # xs = f @ t" by (auto simp: starts_with_iff)
      then have "x # xs = [] @ f @ t" by simp
      then show ?thesis by blast
    next
      case 2
      then obtain p s where "xs = p @ f @ s" using Cons.IH by auto
      then have "x # xs = (x # p) @ f @ s" by simp
      then show ?thesis by blast
    qed
  next
    assume "\<exists>p s. x # xs = p @ f @ s"
    then obtain p s where e: "x # xs = p @ f @ s" by auto
    show "contains (x # xs) f"
    proof (cases p)
      case Nil
      with e have "starts_with (x # xs) f" by (auto simp: starts_with_iff)
      then show ?thesis by simp
    next
      case (Cons y ys)
      with e have "xs = ys @ f @ s" by simp
      then have "contains xs f" using Cons.IH by blast
      then show ?thesis by simp
    qed
  qed
qed

text \<open>None of the five accepted job levels reads as a number.\<close>

lemma parse_numeric_job_level:
  "l \<in> valid_job_levels \<Longrightarrow> parse_numeric l = None"
  unfolding valid_job_levels_def
  by (auto simp: parse_numeric_def parse_literal_def strip_def is_space_def digits_def
      is_digit_def lower_def parse_decimal_def)

text \<open>The coercion of an integer never yields NaN.\<close>

lemma isnull_int_to_numeric [simp]: "\<not> isnull (int_to_numeric i)"
  by (simp add: int_to_numeric_def round_double_def Let_def)

lemma fillna_int_to_numeric [simp]: "fillna z (int_to_numeric i) = int_to_numeric i"
  by (simp add: fillna_def)

lemma validation_None_iff:
  "validation r = None \<longleftrightarrow>
     JobLevel r \<in> valid_job_levels \<and> 1 \<le> WorkEnv r \<and> WorkEnv r \<le> 5 \<and>
     1 \<le> Workload r \<and> Workload r \<le> 5 \<and> 1 \<le> WLB r \<and> WLB r \<le> 5 \<and>
     \<not> float_lt (TrainingHoursPerYear r) (Finite 0) \<and>
     \<not> float_lt (SleepHours r) (Finite 0) \<and>
     \<not> float_lt (PhysicalActivityHours r) (Finite 0)"
  by (auto simp: validation_def)

lemma validation_status: "validation r = Some e \<Longrightarrow> status_code e = 400"
  by (auto simp: validation_def split: if_splits)

lemma float_le_not_lt: "float_le (Finite 0) x \<Longrightarrow> \<not> float_lt x (Finite 0)"
  by (cases x) auto

lemma meets_constraints_validation: "meets_constraints r \<Longrightarrow> validation r = None"
  by (simp add: meets_constraints_def validation_None_iff valid_job_levels_def float_le_not_lt)

lemma example_request_ok: "meets_constraints example_request"
  by (simp add: meets_constraints_def example_request_def)

lemma example_request_valid: "validation example_request = None"
  using example_request_ok by (rule meets_constraints_validation)

text \<open>
  The normalized record of a request with an accepted job level: the job level has become
  the number zero, \<open>WorkEnv\<close> and \<open>WLB\<close> have become text, the six integer columns of
  \<open>numeric_columns\<close> hold their coerced value, and every other column keeps its value,
  apart from a float NaN, which becomes zero.
\<close>

lemma normalize_valid:
  "JobLevel r \<in> valid_job_levels \<Longrightarrow>
   normalize r =
     Inr [(''Gender'', CStr (Gender r)),
      (''MaritalStatus'', CStr (MaritalStatus r)),
      (''Dept'', CStr (Dept r)),
      (''EmpType'', CStr (EmpType r)),
      (''CommuteMode'', CStr (CommuteMode r)),
      (''EduLevel'', CStr (EduLevel r)),
      (''JobLevel'', CFloat (Finite 0)),
      (''Stress'', CInt (Stress r)),
      (''WorkEnv'', CStr (str_int (WorkEnv r))),
      (''Age'', int_to_numeric (Age r)),
      (''TeamSize'', int_to_numeric (TeamSize r)),
      (''haveOT'', CStr (haveOT r)),
      (''Workload'', CInt (Workload r)),
      (''TrainingHoursPerYear'', fillna (Finite 0) (CFloat (TrainingHoursPerYear r))),
      (''WLB'', CStr (str_int (WLB r))),
      (''SleepHours'', fillna (Finite 0) (CFloat (SleepHours r))),
      (''Experience'', int_to_numeric (Experience r)),
      (''NumReports'', int_to_numeric (NumReports r)),
      (''CommuteDistance'', int_to_numeric (CommuteDistance r)),
      (''NumCompanies'', int_to_numeric (NumCompanies r)),
      (''PhysicalActivityHours'', fillna (Finite 0) (CFloat (PhysicalActivityHours r)))]"
  unfolding normalize_def
  apply (simp add: numeric_columns_def input_data_def column_apply_def parse_numeric_job_level)
  apply (simp add: fill_nulls_def categorical_columns_def column_apply_def)
  apply (simp add: fillna_def)
  done

text \<open>The handler after validation has passed, and when it has not.\<close>

lemma handler_valid:
  assumes "validation r = None" and "normalize r = Inr df"
  shows "predict_job_satisfaction transform predict r =
     (case transform df of
        Inl msg \<Rightarrow> ([Transform df], Inl (HTTPException 500 detail_transform))
      | Inr x \<Rightarrow>
          (case predict x of
             Inl msg \<Rightarrow> ([Transform df, Predict x], Inl (HTTPException 500 detail_predict))
           | Inr [] \<Rightarrow> ([Transform df, Predict x], Inl (HTTPException 500 detail_internal))
           | Inr (p # ps) \<Rightarrow>
               ([Transform df, Predict x], Inr [(''predicted_job_satisfaction'', p)])))"
  using assms
  by (simp add: predict_job_satisfaction_def try_body_def split: sum.splits list.splits)

lemma handler_invalid:
  assumes "validation r = Some e"
  shows "predict_job_satisfaction transform predict r = ([], Inl e)"
  using assms by (simp add: predict_job_satisfaction_def try_body_def)

section \<open>The success path\<close>




section \<open>The record handed to the preprocessor\<close>

lemma calls_valid:
  assumes "validation r = None" and "normalize r = Inr df"
  shows "\<exists>rest. artifact_calls transform predict r = Transform df # rest"
  by (simp add: artifact_calls_def handler_valid [OF assms] split: sum.splits list.splits)





lemma fillna_null: "isnull c \<Longrightarrow> fillna z c = CFloat z"
  by (simp add: fillna_def)

lemma endpoint_invalid:
  assumes "validation r = Some e"
  shows "endpoint transform predict r =
           \<lparr>status = status_code e, content = [(''detail'', JString (detail e))]\<rparr>"
    and "artifact_calls transform predict r = []"
  by (simp_all add: endpoint_def artifact_calls_def respond_def handler_invalid [OF assms]
      split: http_exception.splits)











section \<open>Rejected requests\<close>

lemma endpoint_rejects:
  assumes "validation r = Some (HTTPException 400 d)"
  shows "endpoint transform predict r = \<lparr>status = 400, content = [(''detail'', JString d)]\<rparr>"
  using endpoint_invalid(1) [OF assms] by simp

text \<open>
  Claim C5. For every request whose job level is not one of the five accepted names, the
  endpoint answers with status 400 and a detail that contains the text \<open>JobLevel\<close>, and
  no call of the preprocessor or of the model is made.
\<close>

theorem invalid_job_level_rejected:
  assumes "JobLevel r \<notin> valid_job_levels"
  shows "\<exists>d. endpoint transform predict r =
              \<lparr>status = 400, content = [(''detail'', JString d)]\<rparr> \<and>
            contains d ''JobLevel'' \<and>
            artifact_calls transform predict r = []"
proof -
  let ?d = "''Invalid JobLevel. Must be one of: Mid, Intern/Fresher, Junior, Senior, Lead.''"
  have v: "validation r = Some (HTTPException 400 ?d)"
    using assms by (simp add: validation_def)
  have "contains ?d ''JobLevel''"
    by simp
  with endpoint_rejects [OF v] endpoint_invalid(2) [OF v] show ?thesis
    by blast
qed

theorem invalid_job_level_rejected_witness:
  "JobLevel (example_request\<lparr>JobLevel := ''Manager''\<rparr>) \<notin> valid_job_levels \<and>
   status (endpoint identity_preprocessor (constant_model (VInt 4))
     (example_request\<lparr>JobLevel := ''Manager''\<rparr>)) = 400 \<and>
   artifact_calls identity_preprocessor (constant_model (VInt 4))
     (example_request\<lparr>JobLevel := ''Manager''\<rparr>) = []"
proof -
  have h: "JobLevel (example_request\<lparr>JobLevel := ''Manager''\<rparr>) \<notin> valid_job_levels"
    by (simp add: valid_job_levels_def)
  from invalid_job_level_rejected [OF h, of identity_preprocessor "constant_model (VInt 4)"]
  obtain d where
    "endpoint identity_preprocessor (constant_model (VInt 4))
       (example_request\<lparr>JobLevel := ''Manager''\<rparr>) =
         \<lparr>status = 400, content = [(''detail'', JString d)]\<rparr>"
    "artifact_calls identity_preprocessor (constant_model (VInt 4))
       (example_request\<lparr>JobLevel := ''Manager''\<rparr>) = []"
    by blast
  with h show ?thesis by simp
qed

text \<open>
  Claim C6, as amended. For every request in which \<open>WorkEnv\<close>, \<open>Workload\<close> or \<open>WLB\<close> lies outside
  the range 1 to 5, the endpoint answers with status 400 and a detail that contains the
  name of an offending field: the first field, in the order of the checks, whose
  constraint the request violates. That field is \<open>JobLevel\<close> when the job level is not
  accepted, and otherwise the first of the three ratings that is out of range.
\<close>

theorem rating_out_of_range_rejected:
  assumes "\<not> (1 \<le> WorkEnv r \<and> WorkEnv r \<le> 5) \<or>
           \<not> (1 \<le> Workload r \<and> Workload r \<le> 5) \<or>
           \<not> (1 \<le> WLB r \<and> WLB r \<le> 5)"
  shows "\<exists>d. endpoint transform predict r =
              \<lparr>status = 400, content = [(''detail'', JString d)]\<rparr> \<and>
            (JobLevel r \<notin> valid_job_levels \<and> contains d ''JobLevel'' \<or>
             JobLevel r \<in> valid_job_levels \<and>
               \<not> (1 \<le> WorkEnv r \<and> WorkEnv r \<le> 5) \<and> contains d ''WorkEnv'' \<or>
             JobLevel r \<in> valid_job_levels \<and> (1 \<le> WorkEnv r \<and> WorkEnv r \<le> 5) \<and>
               \<not> (1 \<le> Workload r \<and> Workload r \<le> 5) \<and> contains d ''Workload'' \<or>
             JobLevel r \<in> valid_job_levels \<and> (1 \<le> WorkEnv r \<and> WorkEnv r \<le> 5) \<and>
               (1 \<le> Workload r \<and> Workload r \<le> 5) \<and>
               \<not> (1 \<le> WLB r \<and> WLB r \<le> 5) \<and> contains d ''WLB'')"
proof -
  let ?dj = "''Invalid JobLevel. Must be one of: Mid, Intern/Fresher, Junior, Senior, Lead.''"
  let ?de = "''WorkEnv must be an integer between 1 and 5.''"
  let ?dw = "''Workload must be an integer between 1 and 5.''"
  let ?db = "''WLB must be an integer between 1 and 5.''"
  have cj: "contains ?dj ''JobLevel''" by simp
  have ce: "contains ?de ''WorkEnv''" by simp
  have cw: "contains ?dw ''Workload''" by simp
  have cb: "contains ?db ''WLB''" by simp
  consider
      (j) "JobLevel r \<notin> valid_job_levels"
    | (e) "JobLevel r \<in> valid_job_levels" "\<not> (1 \<le> WorkEnv r \<and> WorkEnv r \<le> 5)"
    | (w) "JobLevel r \<in> valid_job_levels" "1 \<le> WorkEnv r \<and> WorkEnv r \<le> 5"
          "\<not> (1 \<le> Workload r \<and> Workload r \<le> 5)"
    | (b) "JobLevel r \<in> valid_job_levels" "1 \<le> WorkEnv r \<and> WorkEnv r \<le> 5"
          "1 \<le> Workload r \<and> Workload r \<le> 5" "\<not> (1 \<le> WLB r \<and> WLB r \<le> 5)"
    using assms by argo
  then show ?thesis
  proof cases
    case j
    then have "validation r = Some (HTTPException 400 ?dj)"
      by (simp add: validation_def)
    from endpoint_rejects [OF this] j cj show ?thesis by blast
  next
    case e
    then have "validation r = Some (HTTPException 400 ?de)"
      by (simp add: validation_def)
    from endpoint_rejects [OF this] e ce show ?thesis by blast
  next
    case w
    then have "validation r = Some (HTTPException 400 ?dw)"
      by (simp add: validation_def)
    from endpoint_rejects [OF this] w cw show ?thesis by blast
  next
    case b
    then have "validation r = Some (HTTPException 400 ?db)"
      by (simp add: validation_def)
    from endpoint_rejects [OF this] b cb show ?thesis by blast
  qed
qed

theorem rating_out_of_range_rejected_witness:
  "\<not> (1 \<le> WorkEnv (example_request\<lparr>WorkEnv := 6\<rparr>) \<and>
        WorkEnv (example_request\<lparr>WorkEnv := 6\<rparr>) \<le> 5) \<and>
   JobLevel (example_request\<lparr>WorkEnv := 6\<rparr>) \<in> valid_job_levels \<and>
   status (endpoint identity_preprocessor (constant_model (VInt 4))
     (example_request\<lparr>WorkEnv := 6\<rparr>)) = 400"
proof -
  have h: "\<not> (1 \<le> WorkEnv (example_request\<lparr>WorkEnv := 6\<rparr>) \<and>
        WorkEnv (example_request\<lparr>WorkEnv := 6\<rparr>) \<le> 5)"
    by simp
  have j: "JobLevel (example_request\<lparr>WorkEnv := 6\<rparr>) \<in> valid_job_levels"
    by (simp add: example_request_def valid_job_levels_def)
  from rating_out_of_range_rejected [OF disjI1, OF h,
      of identity_preprocessor "constant_model (VInt 4)"]
  obtain d where
    "endpoint identity_preprocessor (constant_model (VInt 4))
       (example_request\<lparr>WorkEnv := 6\<rparr>) =
         \<lparr>status = 400, content = [(''detail'', JString d)]\<rparr>"
    by blast
  with h j show ?thesis by simp
qed

text \<open>
  Claim C6 as stated fails. In the sample request with the job level \<open>Manager\<close> and
  \<open>WorkEnv\<close> 6, the rating is out of range, and the detail of the answer names
  \<open>JobLevel\<close> and none of the three ratings.
\<close>

theorem rating_out_of_range_counterexample:
  "\<not> (1 \<le> WorkEnv (example_request\<lparr>JobLevel := ''Manager'', WorkEnv := 6\<rparr>) \<and>
        WorkEnv (example_request\<lparr>JobLevel := ''Manager'', WorkEnv := 6\<rparr>) \<le> 5) \<and>
   endpoint identity_preprocessor (constant_model (VInt 4))
     (example_request\<lparr>JobLevel := ''Manager'', WorkEnv := 6\<rparr>) =
     \<lparr>status = 400,
      content = [(''detail'', JString
        ''Invalid JobLevel. Must be one of: Mid, Intern/Fresher, Junior, Senior, Lead.'')]\<rparr> \<and>
   \<not> contains ''Invalid JobLevel. Must be one of: Mid, Intern/Fresher, Junior, Senior, Lead.''
       ''WorkEnv'' \<and>
   \<not> contains ''Invalid JobLevel. Must be one of: Mid, Intern/Fresher, Junior, Senior, Lead.''
       ''Workload'' \<and>
   \<not> contains ''Invalid JobLevel. Must be one of: Mid, Intern/Fresher, Junior, Senior, Lead.''
       ''WLB''"
proof -
  have v: "validation (example_request\<lparr>JobLevel := ''Manager'', WorkEnv := 6\<rparr>) =
     Some (HTTPException 400
       ''Invalid JobLevel. Must be one of: Mid, Intern/Fresher, Junior, Senior, Lead.'')"
    by (simp add: validation_def valid_job_levels_def)
  have a: "\<not> contains
      ''Invalid JobLevel. Must be one of: Mid, Intern/Fresher, Junior, Senior, Lead.''
      ''WorkEnv''"
    by simp
  have b: "\<not> contains
      ''Invalid JobLevel. Must be one of: Mid, Intern/Fresher, Junior, Senior, Lead.''
      ''Workload''"
    by simp
  have c: "\<not> contains
      ''Invalid JobLevel. Must be one of: Mid, Intern/Fresher, Junior, Senior, Lead.''
      ''WLB''"
    by simp
  from endpoint_rejects [OF v, of identity_preprocessor "constant_model (VInt 4)"] a b c
  show ?thesis by simp
qed

text \<open>
  Claim C7, as amended. For every request in which \<open>TrainingHoursPerYear\<close>, \<open>SleepHours\<close> or
  \<open>PhysicalActivityHours\<close> is less than zero, the endpoint answers with status 400 and a
  detail that contains the name of an offending field: the first field, in the order of
  the checks, whose constraint the request violates. When the job level and the three
  ratings are acceptable, that field is the first of the three hour counts that is negative.
\<close>

theorem negative_hours_rejected:
  assumes "float_lt (TrainingHoursPerYear r) (Finite 0) \<or>
           float_lt (SleepHours r) (Finite 0) \<or>
           float_lt (PhysicalActivityHours r) (Finite 0)"
  shows "\<exists>d. endpoint transform predict r =
              \<lparr>status = 400, content = [(''detail'', JString d)]\<rparr> \<and>
            (JobLevel r \<notin> valid_job_levels \<and> contains d ''JobLevel'' \<or>
             JobLevel r \<in> valid_job_levels \<and>
               \<not> (1 \<le> WorkEnv r \<and> WorkEnv r \<le> 5) \<and> contains d ''WorkEnv'' \<or>
             JobLevel r \<in> valid_job_levels \<and> (1 \<le> WorkEnv r \<and> WorkEnv r \<le> 5) \<and>
               \<not> (1 \<le> Workload r \<and> Workload r \<le> 5) \<and> contains d ''Workload'' \<or>
             JobLevel r \<in> valid_job_levels \<and> (1 \<le> WorkEnv r \<and> WorkEnv r \<le> 5) \<and>
               (1 \<le> Workload r \<and> Workload r \<le> 5) \<and>
               \<not> (1 \<le> WLB r \<and> WLB r \<le> 5) \<and> contains d ''WLB'' \<or>
             JobLevel r \<in> valid_job_levels \<and> (1 \<le> WorkEnv r \<and> WorkEnv r \<le> 5) \<and>
               (1 \<le> Workload r \<and> Workload r \<le> 5) \<and> (1 \<le> WLB r \<and> WLB r \<le> 5) \<and>
               (float_lt (TrainingHoursPerYear r) (Finite 0) \<and>
                  contains d ''TrainingHoursPerYear'' \<or>
                \<not> float_lt (TrainingHoursPerYear r) (Finite 0) \<and>
                  float_lt (SleepHours r) (Finite 0) \<and> contains d ''SleepHours'' \<or>
                \<not> float_lt (TrainingHoursPerYear r) (Finite 0) \<and>
                  \<not> float_lt (SleepHours r) (Finite 0) \<and>
                  float_lt (PhysicalActivityHours r) (Finite 0) \<and>
                  contains d ''PhysicalActivityHours''))"
proof -
  let ?dj = "''Invalid JobLevel. Must be one of: Mid, Intern/Fresher, Junior, Senior, Lead.''"
  let ?de = "''WorkEnv must be an integer between 1 and 5.''"
  let ?dw = "''Workload must be an integer between 1 and 5.''"
  let ?db = "''WLB must be an integer between 1 and 5.''"
  let ?dt = "''TrainingHoursPerYear must be a non-negative number.''"
  let ?ds = "''SleepHours must be a non-negative number.''"
  let ?dp = "''PhysicalActivityHours must be a non-negative number.''"
  have cj: "contains ?dj ''JobLevel''" by simp
  have ce: "contains ?de ''WorkEnv''" by simp
  have cw: "contains ?dw ''Workload''" by simp
  have cb: "contains ?db ''WLB''" by simp
  have ct: "contains ?dt ''TrainingHoursPerYear''" by simp
  have cs: "contains ?ds ''SleepHours''" by simp
  have cp: "contains ?dp ''PhysicalActivityHours''" by simp
  consider
      (j) "JobLevel r \<notin> valid_job_levels"
    | (e) "JobLevel r \<in> valid_job_levels" "\<not> (1 \<le> WorkEnv r \<and> WorkEnv r \<le> 5)"
    | (w) "JobLevel r \<in> valid_job_levels" "1 \<le> WorkEnv r \<and> WorkEnv r \<le> 5"
          "\<not> (1 \<le> Workload r \<and> Workload r \<le> 5)"
    | (b) "JobLevel r \<in> valid_job_levels" "1 \<le> WorkEnv r \<and> WorkEnv r \<le> 5"
          "1 \<le> Workload r \<and> Workload r \<le> 5" "\<not> (1 \<le> WLB r \<and> WLB r \<le> 5)"
    | (t) "JobLevel r \<in> valid_job_levels" "1 \<le> WorkEnv r \<and> WorkEnv r \<le> 5"
          "1 \<le> Workload r \<and> Workload r \<le> 5" "1 \<le> WLB r \<and> WLB r \<le> 5"
          "float_lt (TrainingHoursPerYear r) (Finite 0)"
    | (s) "JobLevel r \<in> valid_job_levels" "1 \<le> WorkEnv r \<and> WorkEnv r \<le> 5"
          "1 \<le> Workload r \<and> Workload r \<le> 5" "1 \<le> WLB r \<and> WLB r \<le> 5"
          "\<not> float_lt (TrainingHoursPerYear r) (Finite 0)"
          "float_lt (SleepHours r) (Finite 0)"
    | (p) "JobLevel r \<in> valid_job_levels" "1 \<le> WorkEnv r \<and> WorkEnv r \<le> 5"
          "1 \<le> Workload r \<and> Workload r \<le> 5" "1 \<le> WLB r \<and> WLB r \<le> 5"
          "\<not> float_lt (TrainingHoursPerYear r) (Finite 0)"
          "\<not> float_lt (SleepHours r) (Finite 0)"
          "float_lt (PhysicalActivityHours r) (Finite 0)"
    using assms by argo
  then show ?thesis
  proof cases
    case j
    then have "validation r = Some (HTTPException 400 ?dj)"
      by (simp add: validation_def)
    from endpoint_rejects [OF this] j cj show ?thesis by blast
  next
    case e
    then have "validation r = Some (HTTPException 400 ?de)"
      by (simp add: validation_def)
    from endpoint_rejects [OF this] e ce show ?thesis by blast
  next
    case w
    then have "validation r = Some (HTTPException 400 ?dw)"
      by (simp add: validation_def)
    from endpoint_rejects [OF this] w cw show ?thesis by blast
  next
    case b
    then have "validation r = Some (HTTPException 400 ?db)"
      by (simp add: validation_def)
    from endpoint_rejects [OF this] b cb show ?thesis by blast
  next
    case t
    then have "validation r = Some (HTTPException 400 ?dt)"
      by (simp add: validation_def)
    from endpoint_rejects [OF this] t ct show ?thesis by blast
  next
    case s
    then have "validation r = Some (HTTPException 400 ?ds)"
      by (simp add: validation_def)
    from endpoint_rejects [OF this] s cs show ?thesis by blast
  next
    case p
    then have "validation r = Some (HTTPException 400 ?dp)"
      by (simp add: validation_def)
    from endpoint_rejects [OF this] p cp show ?thesis by blast
  qed
qed

theorem negative_hours_rejected_witness:
  "float_lt (SleepHours (example_request\<lparr>SleepHours := Finite (- 1)\<rparr>)) (Finite 0) \<and>
   status (endpoint identity_preprocessor (constant_model (VInt 4))
     (example_request\<lparr>SleepHours := Finite (- 1)\<rparr>)) = 400"
proof -
  have h: "float_lt (SleepHours (example_request\<lparr>SleepHours := Finite (- 1)\<rparr>)) (Finite 0)"
    by simp
  from negative_hours_rejected [OF disjI2, OF disjI1, OF h,
      of identity_preprocessor "constant_model (VInt 4)"]
  obtain d where
    "endpoint identity_preprocessor (constant_model (VInt 4))
       (example_request\<lparr>SleepHours := Finite (- 1)\<rparr>) =
         \<lparr>status = 400, content = [(''detail'', JString d)]\<rparr>"
    by blast
  with h show ?thesis by simp
qed

text \<open>
  Claim C7 as stated fails. In the sample request with \<open>WorkEnv\<close> 6 and \<open>SleepHours\<close>
  \<open>-1\<close>, an hour count is negative, and the detail of the answer names \<open>WorkEnv\<close> and
  none of the three hour counts.
\<close>

theorem negative_hours_counterexample:
  "float_lt (SleepHours (example_request\<lparr>WorkEnv := 6, SleepHours := Finite (- 1)\<rparr>))
     (Finite 0) \<and>
   endpoint identity_preprocessor (constant_model (VInt 4))
     (example_request\<lparr>WorkEnv := 6, SleepHours := Finite (- 1)\<rparr>) =
     \<lparr>status = 400,
      content = [(''detail'', JString ''WorkEnv must be an integer between 1 and 5.'')]\<rparr> \<and>
   \<not> contains ''WorkEnv must be an integer between 1 and 5.'' ''TrainingHoursPerYear'' \<and>
   \<not> contains ''WorkEnv must be an integer between 1 and 5.'' ''SleepHours'' \<and>
   \<not> contains ''WorkEnv must be an integer between 1 and 5.'' ''PhysicalActivityHours''"
proof -
  have v: "validation (example_request\<lparr>WorkEnv := 6, SleepHours := Finite (- 1)\<rparr>) =
     Some (HTTPException 400 ''WorkEnv must be an integer between 1 and 5.'')"
    by (simp add: validation_def valid_job_levels_def example_request_def)
  have a: "\<not> contains ''WorkEnv must be an integer between 1 and 5.''
      ''TrainingHoursPerYear''"
    by simp
  have b: "\<not> contains ''WorkEnv must be an integer between 1 and 5.'' ''SleepHours''"
    by simp
  have c: "\<not> contains ''WorkEnv must be an integer between 1 and 5.''
      ''PhysicalActivityHours''"
    by simp
  from endpoint_rejects [OF v, of identity_preprocessor "constant_model (VInt 4)"] a b c
  show ?thesis by simp
qed

text \<open>
  Claim C8, as amended. If any call of the preprocessor or the model is recorded, every
  check that the handler makes has passed: the job level is one of the five names, the
  three ratings lie in the range 1 to 5, and no hour count compares less than zero, which
  is also the case for an hour count that is NaN. When a check fails, no call is recorded
  and the endpoint answers with status 400 and the detail of the failed check.
\<close>

theorem validation_precedes_artifacts:
  "(artifact_calls transform predict r \<noteq> [] \<longrightarrow>
      JobLevel r \<in> valid_job_levels \<and> 1 \<le> WorkEnv r \<and> WorkEnv r \<le> 5 \<and>
      1 \<le> Workload r \<and> Workload r \<le> 5 \<and> 1 \<le> WLB r \<and> WLB r \<le> 5 \<and>
      \<not> float_lt (TrainingHoursPerYear r) (Finite 0) \<and>
      \<not> float_lt (SleepHours r) (Finite 0) \<and>
      \<not> float_lt (PhysicalActivityHours r) (Finite 0)) \<and>
   (validation r = Some e \<longrightarrow>
      artifact_calls transform predict r = [] \<and>
      endpoint transform predict r =
        \<lparr>status = 400, content = [(''detail'', JString (detail e))]\<rparr>)"
proof -
  have rejected: "artifact_calls transform predict r = [] \<and>
      endpoint transform predict r =
        \<lparr>status = 400, content = [(''detail'', JString (detail e))]\<rparr>"
    if v: "validation r = Some e" for e
    using endpoint_invalid [OF v, of transform predict] validation_status [OF v] by simp
  have "validation r = None" if "artifact_calls transform predict r \<noteq> []"
    using that rejected by (cases "validation r") auto
  then have "artifact_calls transform predict r \<noteq> [] \<longrightarrow>
      JobLevel r \<in> valid_job_levels \<and> 1 \<le> WorkEnv r \<and> WorkEnv r \<le> 5 \<and>
      1 \<le> Workload r \<and> Workload r \<le> 5 \<and> 1 \<le> WLB r \<and> WLB r \<le> 5 \<and>
      \<not> float_lt (TrainingHoursPerYear r) (Finite 0) \<and>
      \<not> float_lt (SleepHours r) (Finite 0) \<and>
      \<not> float_lt (PhysicalActivityHours r) (Finite 0)"
    unfolding validation_None_iff by (rule impI)
  with rejected show ?thesis by blast
qed

theorem validation_precedes_artifacts_witness:
  "artifact_calls identity_preprocessor (constant_model (VInt 4)) example_request \<noteq> [] \<and>
   JobLevel example_request \<in> valid_job_levels \<and>
   validation (example_request\<lparr>WorkEnv := 6\<rparr>) =
     Some (HTTPException 400 ''WorkEnv must be an integer between 1 and 5.'') \<and>
   artifact_calls identity_preprocessor (constant_model (VInt 4))
     (example_request\<lparr>WorkEnv := 6\<rparr>) = [] \<and>
   endpoint identity_preprocessor (constant_model (VInt 4)) (example_request\<lparr>WorkEnv := 6\<rparr>) =
     \<lparr>status = 400,
      content = [(''detail'', JString ''WorkEnv must be an integer between 1 and 5.'')]\<rparr>"
proof -
  have j: "JobLevel example_request \<in> valid_job_levels"
    using example_request_valid by (simp add: validation_None_iff)
  obtain df where n: "normalize example_request = Inr df"
    using normalize_valid [OF j] by blast
  obtain rest where
    "artifact_calls identity_preprocessor (constant_model (VInt 4)) example_request =
       Transform df # rest"
    using calls_valid [OF example_request_valid n] by blast
  then have a: "artifact_calls identity_preprocessor (constant_model (VInt 4)) example_request
      \<noteq> []"
    by simp
  have b: "validation (example_request\<lparr>WorkEnv := 6\<rparr>) =
     Some (HTTPException 400 ''WorkEnv must be an integer between 1 and 5.'')"
    by (simp add: validation_def example_request_def valid_job_levels_def)
  from validation_precedes_artifacts [of identity_preprocessor "constant_model (VInt 4)"
      example_request] a
  have c: "JobLevel example_request \<in> valid_job_levels"
    by blast
  from validation_precedes_artifacts [of identity_preprocessor "constant_model (VInt 4)"
      "example_request\<lparr>WorkEnv := 6\<rparr>"
      "HTTPException 400 ''WorkEnv must be an integer between 1 and 5.''"] b
  have "artifact_calls identity_preprocessor (constant_model (VInt 4))
     (example_request\<lparr>WorkEnv := 6\<rparr>) = [] \<and>
   endpoint identity_preprocessor (constant_model (VInt 4)) (example_request\<lparr>WorkEnv := 6\<rparr>) =
     \<lparr>status = 400,
      content = [(''detail'', JString ''WorkEnv must be an integer between 1 and 5.'')]\<rparr>"
    by simp
  with a b c show ?thesis by simp
qed

text \<open>
  Claim C8 as stated fails. In the sample request with \<open>TrainingHoursPerYear\<close> NaN, the
  constraint that the hour count is at least zero does not hold, yet every check of the
  handler passes, both artifacts are called and the answer has status 200.
\<close>

theorem validation_precedes_artifacts_counterexample:
  "\<not> float_le (Finite 0)
       (TrainingHoursPerYear (example_request\<lparr>TrainingHoursPerYear := NaN\<rparr>)) \<and>
   \<not> meets_constraints (example_request\<lparr>TrainingHoursPerYear := NaN\<rparr>) \<and>
   validation (example_request\<lparr>TrainingHoursPerYear := NaN\<rparr>) = None \<and>
   artifact_calls identity_preprocessor (constant_model (VInt 4))
     (example_request\<lparr>TrainingHoursPerYear := NaN\<rparr>) \<noteq> [] \<and>
   status (endpoint identity_preprocessor (constant_model (VInt 4))
     (example_request\<lparr>TrainingHoursPerYear := NaN\<rparr>)) = 200"
proof -
  let ?r = "example_request\<lparr>TrainingHoursPerYear := NaN\<rparr>"
  have a: "\<not> float_le (Finite 0) (TrainingHoursPerYear ?r)"
    by simp
  have b: "\<not> meets_constraints ?r"
    by (simp add: meets_constraints_def)
  have v: "validation ?r = None"
    using example_request_valid by (simp add: validation_None_iff)
  then have j: "JobLevel ?r \<in> valid_job_levels"
    by (simp add: validation_None_iff)
  obtain df where n: "normalize ?r = Inr df"
    using normalize_valid [OF j] by blast
  note h = handler_valid [OF v n, of identity_preprocessor "constant_model (VInt 4)"]
  have c: "artifact_calls identity_preprocessor (constant_model (VInt 4)) ?r \<noteq> []"
    by (simp add: artifact_calls_def h identity_preprocessor_def constant_model_def)
  have d: "status (endpoint identity_preprocessor (constant_model (VInt 4)) ?r) = 200"
    by (simp add: endpoint_def respond_def h identity_preprocessor_def constant_model_def)
  from a b v c d show ?thesis by simp
qed

section \<open>Server-side faults\<close>

lemma endpoint_other_exception:
  assumes "snd (try_body transform predict r) = Inl e" and "\<forall>h. e \<noteq> HTTPExc h"
  shows "endpoint transform predict r =
           \<lparr>status = 500, content = [(''detail'', JString detail_internal)]\<rparr>"
proof -
  obtain calls where t: "try_body transform predict r = (calls, Inl e)"
    using assms(1) by (cases "try_body transform predict r") auto
  from assms(2) show ?thesis
    by (cases e) (simp_all add: endpoint_def respond_def predict_job_satisfaction_def t)
qed

text \<open>
  Claim C9. For every request that passes validation: if the preprocessor's transform
  raises on the normalized record, the endpoint answers with status 500 and the fixed
  detail \<open>detail_transform\<close>; if the model's predict raises, with status 500 and the fixed
  detail \<open>detail_predict\<close>; and if the body of the handler raises any exception that is
  not an \<^verbatim>\<open>HTTPException\<close>, with status 500 and the fixed detail \<open>detail_internal\<close>. In
  each case the response is the same for every exception raised and every message it
  carries.
\<close>

theorem server_faults_generic:
  assumes "validation r = None"
  shows "(\<forall>df msg. normalize r = Inr df \<longrightarrow> transform df = Inl msg \<longrightarrow>
            endpoint transform predict r =
              \<lparr>status = 500, content = [(''detail'', JString detail_transform)]\<rparr>) \<and>
         (\<forall>df x msg. normalize r = Inr df \<longrightarrow> transform df = Inr x \<longrightarrow>
            predict x = Inl msg \<longrightarrow>
            endpoint transform predict r =
              \<lparr>status = 500, content = [(''detail'', JString detail_predict)]\<rparr>) \<and>
         (\<forall>e. snd (try_body transform predict r) = Inl e \<longrightarrow> (\<forall>h. e \<noteq> HTTPExc h) \<longrightarrow>
            endpoint transform predict r =
              \<lparr>status = 500, content = [(''detail'', JString detail_internal)]\<rparr>)"
proof -
  have "endpoint transform predict r =
          \<lparr>status = 500, content = [(''detail'', JString detail_transform)]\<rparr>"
    if "normalize r = Inr df" "transform df = Inl msg" for df msg
    using that by (simp add: endpoint_def respond_def handler_valid [OF assms that(1)])
  moreover have "endpoint transform predict r =
          \<lparr>status = 500, content = [(''detail'', JString detail_predict)]\<rparr>"
    if "normalize r = Inr df" "transform df = Inr x" "predict x = Inl msg" for df x msg
    using that by (simp add: endpoint_def respond_def handler_valid [OF assms that(1)])
  moreover have "endpoint transform predict r =
          \<lparr>status = 500, content = [(''detail'', JString detail_internal)]\<rparr>"
    if "snd (try_body transform predict r) = Inl e" "\<forall>h. e \<noteq> HTTPExc h" for e
    using that by (rule endpoint_other_exception)
  ultimately show ?thesis
    by blast
qed

theorem server_faults_generic_witness:
  "validation example_request = None \<and>
   endpoint (failing_preprocessor ''unseen category'') (constant_model (VInt 4))
     example_request =
     \<lparr>status = 500, content = [(''detail'', JString detail_transform)]\<rparr> \<and>
   endpoint identity_preprocessor (failing_model ''shape mismatch'') example_request =
     \<lparr>status = 500, content = [(''detail'', JString detail_predict)]\<rparr> \<and>
   snd (try_body identity_preprocessor empty_model example_request) = Inl IndexError \<and>
   endpoint identity_preprocessor empty_model example_request =
     \<lparr>status = 500, content = [(''detail'', JString detail_internal)]\<rparr>"
proof -
  have j: "JobLevel example_request \<in> valid_job_levels"
    using example_request_valid by (simp add: validation_None_iff)
  obtain df where n: "normalize example_request = Inr df"
    using normalize_valid [OF j] by blast
  from server_faults_generic [OF example_request_valid,
      of "failing_preprocessor ''unseen category''" "constant_model (VInt 4)"] n
  have a: "endpoint (failing_preprocessor ''unseen category'') (constant_model (VInt 4))
      example_request =
     \<lparr>status = 500, content = [(''detail'', JString detail_transform)]\<rparr>"
    unfolding failing_preprocessor_def by blast
  from server_faults_generic [OF example_request_valid,
      of identity_preprocessor "failing_model ''shape mismatch''"] n
  have b: "endpoint identity_preprocessor (failing_model ''shape mismatch'') example_request =
     \<lparr>status = 500, content = [(''detail'', JString detail_predict)]\<rparr>"
    unfolding identity_preprocessor_def failing_model_def by blast
  have t: "snd (try_body identity_preprocessor empty_model example_request) = Inl IndexError"
    by (simp add: try_body_def example_request_valid n identity_preprocessor_def
        empty_model_def)
  have "\<forall>h. IndexError \<noteq> HTTPExc h"
    by simp
  with server_faults_generic [OF example_request_valid, of identity_preprocessor empty_model] t
  have c: "endpoint identity_preprocessor empty_model example_request =
     \<lparr>status = 500, content = [(''detail'', JString detail_internal)]\<rparr>"
    by blast
  from example_request_valid a b t c show ?thesis by simp
qed

section \<open>The paths of the artifacts\<close>

text \<open>
  Claim C10, as amended. The paths from which the model and the preprocessor are loaded at
  start-up are the two constants \<open>model_path\<close> and \<open>preprocessor_path\<close> of the source:
  the outcome of start-up is determined by what loads from these two paths, whatever the
  process environment and whatever the host stores elsewhere, and the paths it loads are
  \<open>model_path\<close>, followed by \<open>preprocessor_path\<close> when the model has loaded.
\<close>

theorem artifact_paths_fixed:
  assumes "load model_path = load' model_path"
    and "load preprocessor_path = load' preprocessor_path"
  shows "load_artifacts environ load = load_artifacts environ' load' \<and>
         (fst (load_artifacts environ load) = [model_path] \<or>
          fst (load_artifacts environ load) = [model_path, preprocessor_path])"
proof -
  have "load_artifacts environ load = load_artifacts environ' load'"
    unfolding load_artifacts_def assms ..
  moreover have "fst (load_artifacts environ load) = [model_path] \<or>
      fst (load_artifacts environ load) = [model_path, preprocessor_path]"
    by (simp add: load_artifacts_def split: sum.splits)
  ultimately show ?thesis ..
qed

theorem artifact_paths_fixed_witness:
  "example_store model_path = empty_store model_path \<and>
   example_store preprocessor_path = empty_store preprocessor_path \<and>
   load_artifacts example_environ example_store = load_artifacts Map.empty empty_store \<and>
   fst (load_artifacts example_environ example_store) = [model_path]"
proof -
  have a: "example_store model_path = empty_store model_path"
    by (simp add: example_store_def empty_store_def model_path_def)
  have b: "example_store preprocessor_path = empty_store preprocessor_path"
    by (simp add: example_store_def empty_store_def preprocessor_path_def)
  have c: "fst (load_artifacts example_environ example_store) \<noteq>
      [model_path, preprocessor_path]"
    by (simp add: load_artifacts_def a empty_store_def)
  note t = artifact_paths_fixed [OF a b, of example_environ Map.empty]
  from t have d: "load_artifacts example_environ example_store =
      load_artifacts Map.empty empty_store"
    by (rule conjunct1)
  from t have "fst (load_artifacts example_environ example_store) = [model_path] \<or>
    fst (load_artifacts example_environ example_store) = [model_path, preprocessor_path]"
    by (rule conjunct2)
  with c have "fst (load_artifacts example_environ example_store) = [model_path]"
    by blast
  with a b d show ?thesis by blast
qed

text \<open>
  Claim C10 as stated fails: in an environment whose every variable names the file
  \<^verbatim>\<open>/srv/artifact.pkl\<close>, on a host where that file loads, start-up tries the constant
  path of the source, which no variable of the environment holds, and fails.
\<close>

theorem configured_path_ignored_counterexample:
  "example_environ ''MODEL_PATH'' = Some ''/srv/artifact.pkl'' \<and>
   example_store ''/srv/artifact.pkl'' = Inr ''/srv/artifact.pkl'' \<and>
   load_artifacts example_environ example_store =
     ([''D:/COE64-335/Final Pro/FastAPI/best_random_forest_model.pkl''],
      Inl (HTTPException 500 ''Error loading model or preprocessor'')) \<and>
   ''D:/COE64-335/Final Pro/FastAPI/best_random_forest_model.pkl'' \<notin> ran example_environ"
proof -
  have "ran example_environ = {''/srv/artifact.pkl''}"
    by (auto simp: ran_def example_environ_def)
  then show ?thesis
    by (simp add: load_artifacts_def example_store_def example_environ_def model_path_def)
qed

end
